theory Spec2Isabelle
  imports Main "HOL-Library.Sublist"
begin

section \<open>The documentation setup script \<open>docs_setup.py\<close>\<close>

text \<open>
  The script creates a fixed tree of directories, installs packages through a child
  process, writes placeholder pages for the missing ones of a fixed list of files and
  then offers a three-way menu. Everything it touches is outside the interpreter: the
  disk, the standard streams and the child processes. The model makes these explicit:
  the disk is a tree of nodes, standard output is the list of the chunks written, the
  lines typed by the user are a list, and the result of every child process is given
  by the environment.
\<close>

subsection \<open>Python strings (ASCII)\<close>

text \<open>
  A \<open>string\<close> is a list of bytes. The methods of \<open>str\<close> are modelled on the
  ASCII letters; every other byte is uncased, as the digits and the punctuation are.
\<close>

definition ascii_lowercase :: string where
  "ascii_lowercase = ''abcdefghijklmnopqrstuvwxyz''"

definition ascii_uppercase :: string where
  "ascii_uppercase = ''ABCDEFGHIJKLMNOPQRSTUVWXYZ''"

definition islower :: "char \<Rightarrow> bool" where
  "islower c = (c \<in> set ascii_lowercase)"

definition isupper :: "char \<Rightarrow> bool" where
  "isupper c = (c \<in> set ascii_uppercase)"

definition iscased :: "char \<Rightarrow> bool" where
  "iscased c = (islower c \<or> isupper c)"

definition to_upper :: "char \<Rightarrow> char" where
  "to_upper c = (case map_of (zip ascii_lowercase ascii_uppercase) c of
                   Some u \<Rightarrow> u | None \<Rightarrow> c)"

definition to_lower :: "char \<Rightarrow> char" where
  "to_lower c = (case map_of (zip ascii_uppercase ascii_lowercase) c of
                   Some l \<Rightarrow> l | None \<Rightarrow> c)"

text \<open>
  \<open>str.title()\<close>: a character that follows a cased character is lowered, any other
  is put in title case; the flag is whether the previous character was cased.
\<close>

fun title_from :: "bool \<Rightarrow> string \<Rightarrow> string" where
  "title_from previous_is_cased [] = []"
| "title_from previous_is_cased (c # cs) =
     (if previous_is_cased then to_lower c else to_upper c) # title_from (iscased c) cs"

definition str_title :: "string \<Rightarrow> string" where
  "str_title s = title_from False s"

text \<open>\<open>str.replace(old, new)\<close> for one-character \<open>old\<close> and \<open>new\<close>.\<close>

definition str_replace :: "char \<Rightarrow> char \<Rightarrow> string \<Rightarrow> string" where
  "str_replace old new s = map (\<lambda>c. if c = old then new else c) s"

text \<open>
  \<open>str.split(sep)\<close> for a one-character separator; \<open>current\<close> is the piece read
  since the last separator.
\<close>

fun split_from :: "char \<Rightarrow> string \<Rightarrow> string \<Rightarrow> string list" where
  "split_from sep current [] = [current]"
| "split_from sep current (c # cs) =
     (if c = sep then current # split_from sep [] cs
      else split_from sep (current @ [c]) cs)"

definition str_split :: "char \<Rightarrow> string \<Rightarrow> string list" where
  "str_split sep s = split_from sep [] s"

text \<open>\<open>str.rfind(c)\<close>: the index of the last occurrence, \<open>None\<close> for Python's \<open>-1\<close>.\<close>

fun rfind_from :: "char \<Rightarrow> nat \<Rightarrow> nat option \<Rightarrow> string \<Rightarrow> nat option" where
  "rfind_from c i found [] = found"
| "rfind_from c i found (x # xs) =
     rfind_from c (Suc i) (if x = c then Some i else found) xs"

definition str_rfind :: "char \<Rightarrow> string \<Rightarrow> nat option" where
  "str_rfind c s = rfind_from c 0 None s"

text \<open>\<open>sep.join(xs)\<close>.\<close>

fun str_join :: "string \<Rightarrow> string list \<Rightarrow> string" where
  "str_join sep [] = []"
| "str_join sep [x] = x"
| "str_join sep (x # y # ys) = x @ sep @ str_join sep (y # ys)"

text \<open>The decimal digits of a natural number and \<open>str\<close> of an integer.\<close>

definition digit_char :: "nat \<Rightarrow> char" where
  "digit_char d = ''0123456789'' ! d"

fun str_nat :: "nat \<Rightarrow> string" where
  "str_nat n = (if n < 10 then [digit_char n] else str_nat (n div 10) @ [digit_char (n mod 10)])"

declare str_nat.simps [simp del]

definition str_int :: "int \<Rightarrow> string" where
  "str_int i = (if i < 0 then CHR ''-'' # str_nat (nat (- i)) else str_nat (nat i))"

text \<open>
  \<open>repr\<close> of a string: single quotes unless the string holds a single quote and no
  double quote; the backslash, the chosen quote and the newline, carriage return and
  tab are escaped. Every other byte is taken to be printable.
\<close>

definition repr_char :: "char \<Rightarrow> char \<Rightarrow> string" where
  "repr_char quote c =
     (if c = quote \<or> c = CHR 0x5C then [CHR 0x5C, c]
      else if c = CHR 0x0A then [CHR 0x5C, CHR ''n'']
      else if c = CHR 0x0D then [CHR 0x5C, CHR ''r'']
      else if c = CHR 0x09 then [CHR 0x5C, CHR ''t'']
      else [c])"

definition repr_str :: "string \<Rightarrow> string" where
  "repr_str s =
     (let quote = (if CHR 0x27 \<in> set s \<and> CHR 0x22 \<notin> set s then CHR 0x22 else CHR 0x27)
      in quote # concat (map (repr_char quote) s) @ [quote])"

text \<open>\<open>str\<close> of a list of strings, as \<open>%s\<close> formats the command of a failed process.\<close>

definition str_list :: "string list \<Rightarrow> string" where
  "str_list xs = ''['' @ str_join '', '' (map repr_str xs) @ '']''"

subsection \<open>Paths\<close>

text \<open>
  A \<open>pathlib.Path\<close> built from a relative POSIX path string is its list of parts:
  the string is split at the slashes, and the empty parts and the parts \<open>.\<close> are
  dropped. The empty list is the working directory. Absolute paths and the part
  \<open>..\<close> do not occur in the script.
\<close>

type_synonym path = "string list"

definition Path :: "string \<Rightarrow> path" where
  "Path s = filter (\<lambda>part. part \<noteq> [] \<and> part \<noteq> ''.'') (str_split CHR ''/'' s)"

definition path_str :: "path \<Rightarrow> string" where
  "path_str p = (if p = [] then ''.'' else str_join ''/'' p)"

definition path_parent :: "path \<Rightarrow> path" where
  "path_parent p = butlast p"

definition path_name :: "path \<Rightarrow> string" where
  "path_name p = (if p = [] then [] else last p)"

text \<open>
  \<open>Path.stem\<close>: the name without its last suffix; a name whose only dot is its first
  or its last character has no suffix.
\<close>

definition path_stem :: "path \<Rightarrow> string" where
  "path_stem p =
     (let name = path_name p in
      case str_rfind CHR ''.'' name of
        None \<Rightarrow> name
      | Some i \<Rightarrow> if 0 < i \<and> i < length name - 1 then take i name else name)"

subsection \<open>The disk\<close>

text \<open>
  The disk below the working directory is a tree: a regular file with its content, or
  a directory with its entries. Access rights, links and a full disk are not modelled;
  the errors of the model are those of a path that is missing or of the wrong kind.
\<close>

datatype node = File string | Dir "string \<Rightarrow> node option"

datatype error =
    SystemExit nat
  | CalledProcessError "string list" int
  | KeyboardInterrupt
  | EOFError
  | FileNotFoundError
  | FileExistsError
  | NotADirectoryError
  | IsADirectoryError

text \<open>Resolving a path from a node, as \<open>os.stat\<close> does.\<close>

fun stat :: "node \<Rightarrow> path \<Rightarrow> error + node" where
  "stat n [] = Inr n"
| "stat (File content) (c # cs) = Inl NotADirectoryError"
| "stat (Dir entries) (c # cs) =
     (case entries c of None \<Rightarrow> Inl FileNotFoundError | Some n \<Rightarrow> stat n cs)"

text \<open>\<open>Path.exists\<close> and \<open>Path.is_dir\<close> answer \<open>False\<close> where \<open>os.stat\<close> raises.\<close>

definition path_exists :: "node \<Rightarrow> path \<Rightarrow> bool" where
  "path_exists root p = (case stat root p of Inl e \<Rightarrow> False | Inr n \<Rightarrow> True)"

definition is_dir :: "node \<Rightarrow> path \<Rightarrow> bool" where
  "is_dir root p = (case stat root p of Inr (Dir entries) \<Rightarrow> True | _ \<Rightarrow> False)"

definition is_file :: "node \<Rightarrow> path \<Rightarrow> bool" where
  "is_file root p = (case stat root p of Inr (File content) \<Rightarrow> True | _ \<Rightarrow> False)"

text \<open>A path is blocked when the path itself or one of its ancestors is a regular file.\<close>

definition blocked :: "node \<Rightarrow> path \<Rightarrow> bool" where
  "blocked root p = (\<exists>q \<in> set (prefixes p). is_file root q)"

text \<open>\<open>os.mkdir\<close>: one new, empty directory; the parent must be a directory.\<close>

fun os_mkdir :: "node \<Rightarrow> path \<Rightarrow> error + node" where
  "os_mkdir n [] = Inl FileExistsError"
| "os_mkdir (File content) (c # cs) = Inl NotADirectoryError"
| "os_mkdir (Dir entries) [c] =
     (case entries c of
        None \<Rightarrow> Inr (Dir (entries(c \<mapsto> Dir Map.empty)))
      | Some n \<Rightarrow> Inl FileExistsError)"
| "os_mkdir (Dir entries) (c # c' # cs) =
     (case entries c of
        None \<Rightarrow> Inl FileNotFoundError
      | Some n \<Rightarrow>
          (case os_mkdir n (c' # cs) of
             Inl e \<Rightarrow> Inl e
           | Inr n' \<Rightarrow> Inr (Dir (entries(c \<mapsto> n')))))"

text \<open>
  \<open>Path.mkdir(parents, exist_ok)\<close> as the standard library writes it: try
  \<open>os.mkdir\<close>; when the parent is missing and \<open>parents\<close> is set, make the parent
  (with its own parents, accepting an existing one) and try once more without
  \<open>parents\<close>; any other error is let through unless \<open>exist_ok\<close> is set and the path
  is a directory.
\<close>

function mkdir :: "node \<Rightarrow> path \<Rightarrow> bool \<Rightarrow> bool \<Rightarrow> error + node" where
  "mkdir root p parents exist_ok =
     (case os_mkdir root p of
        Inr root' \<Rightarrow> Inr root'
      | Inl e \<Rightarrow>
          if e = FileNotFoundError then
            (if \<not> parents \<or> path_parent p = p then Inl e
             else (case mkdir root (path_parent p) True True of
                     Inl e' \<Rightarrow> Inl e'
                   | Inr root' \<Rightarrow> mkdir root' p False exist_ok))
          else if \<not> exist_ok \<or> \<not> is_dir root p then Inl e
          else Inr root)"
  by pat_completeness auto
termination
proof (relation "measure (\<lambda>(root, p, parents, exist_ok). 2 * length p + (if parents then 1 else 0))")
  show "wf (measure (\<lambda>(root, p, parents, exist_ok). 2 * length p + (if parents then 1 else 0)))"
    by simp
next
  fix root :: node and p :: path and parents exist_ok :: bool and e :: error
  assume "\<not> (\<not> parents \<or> path_parent p = p)"
  then have "parents" and "0 < length p" by (auto simp: path_parent_def)
  then show "((root, path_parent p, True, True), (root, p, parents, exist_ok))
        \<in> measure (\<lambda>(root, p, parents, exist_ok). 2 * length p + (if parents then 1 else 0))"
    by (simp add: path_parent_def)
next
  fix root root' :: node and p :: path and parents exist_ok :: bool and e :: error
  assume "\<not> (\<not> parents \<or> path_parent p = p)"
  then show "((root', p, False, exist_ok), (root, p, parents, exist_ok))
        \<in> measure (\<lambda>(root, p, parents, exist_ok). 2 * length p + (if parents then 1 else 0))"
    by simp
qed

declare mkdir.simps [simp del]

text \<open>
  \<open>Path.write_text\<close> opens the file for writing, which creates or truncates it: the
  parent must be a directory and the path itself must not be one.
\<close>

fun write_text :: "node \<Rightarrow> path \<Rightarrow> string \<Rightarrow> error + node" where
  "write_text n [] s = Inl IsADirectoryError"
| "write_text (File content) (c # cs) s = Inl NotADirectoryError"
| "write_text (Dir entries) [c] s =
     (case entries c of
        Some (Dir sub) \<Rightarrow> Inl IsADirectoryError
      | _ \<Rightarrow> Inr (Dir (entries(c \<mapsto> File s))))"
| "write_text (Dir entries) (c # c' # cs) s =
     (case entries c of
        None \<Rightarrow> Inl FileNotFoundError
      | Some n \<Rightarrow>
          (case write_text n (c' # cs) s of
             Inl e \<Rightarrow> Inl e
           | Inr n' \<Rightarrow> Inr (Dir (entries(c \<mapsto> n')))))"

subsection \<open>The environment of the script\<close>

text \<open>
  A child process started by \<open>subprocess.run\<close> ends in one of three ways for the
  script: it exits with a return code (negative when a signal killed it), the user
  interrupts the script while it waits (\<open>KeyboardInterrupt\<close>), or the program could
  not be started at all (\<open>FileNotFoundError\<close>).
\<close>

datatype outcome = Exited int | Interrupted | NotStarted

text \<open>
  The world of one run: the disk, the chunks written to standard output so far, the
  commands handed to \<open>subprocess.run\<close> so far, what the \<open>k\<close>-th child process
  does, the path of the interpreter and the signal names of the platform. What
  the child processes themselves write to the disk is outside the model.
\<close>

record world =
  disk :: node
  stdout :: "string list"
  calls :: "string list list"
  child :: "nat \<Rightarrow> outcome"
  sys_executable :: string
  signal_names :: "nat \<Rightarrow> string option"

type_synonym action = "world \<Rightarrow> error option \<times> world"

definition newline :: string where
  "newline = [CHR 0x0A]"

definition print :: "string \<Rightarrow> world \<Rightarrow> world" where
  "print s w = w\<lparr>stdout := stdout w @ [s @ newline]\<rparr>"

text \<open>\<open>str\<close> of a \<open>CalledProcessError\<close>.\<close>

definition str_CalledProcessError :: "(nat \<Rightarrow> string option) \<Rightarrow> string list \<Rightarrow> int \<Rightarrow> string" where
  "str_CalledProcessError names cmd returncode =
     (if returncode < 0 then
        (case names (nat (- returncode)) of
           Some name \<Rightarrow>
             ''Command '' @ [CHR 0x27] @ str_list cmd @ [CHR 0x27] @ '' died with <Signals.'' @ name
               @ '': '' @ str_int (- returncode) @ ''>.''
         | None \<Rightarrow>
             ''Command '' @ [CHR 0x27] @ str_list cmd @ [CHR 0x27] @ '' died with unknown signal ''
               @ str_int (- returncode) @ ''.'')
      else ''Command '' @ [CHR 0x27] @ str_list cmd @ [CHR 0x27]
             @ '' returned non-zero exit status '' @ str_int returncode @ ''.'')"

text \<open>\<open>subprocess.run(cmd, check=True)\<close>: a return code other than 0 is raised.\<close>

definition subprocess_run :: "string list \<Rightarrow> action" where
  "subprocess_run cmd w =
     (let w' = w\<lparr>calls := calls w @ [cmd]\<rparr> in
      case child w (length (calls w)) of
        Exited returncode \<Rightarrow>
          if returncode \<noteq> 0 then (Some (CalledProcessError cmd returncode), w') else (None, w')
      | Interrupted \<Rightarrow> (Some KeyboardInterrupt, w')
      | NotStarted \<Rightarrow> (Some FileNotFoundError, w'))"

text \<open>
  The exit status of the interpreter: 0 after a normal return, the argument of
  \<open>sys.exit\<close>, 130 after an interrupt nobody caught, 1 after any other exception.
\<close>

fun exit_status :: "error option \<Rightarrow> nat" where
  "exit_status None = 0"
| "exit_status (Some (SystemExit code)) = code"
| "exit_status (Some KeyboardInterrupt) = 130"
| "exit_status (Some e) = 1"

subsection \<open>The script\<close>

definition DOCS_DIRS :: "string list" where
  "DOCS_DIRS =
    [''docs/assets'',
     ''docs/getting-started'',
     ''docs/core'',
     ''docs/web/react'',
     ''docs/web/angular'',
     ''docs/mobile/react-native'',
     ''docs/mobile/flutter'',
     ''docs/advanced'',
     ''docs/development'']"

text \<open>The loop of \<open>create_directories\<close>, over any list of directories.\<close>

fun create_directories_in :: "string list \<Rightarrow> action" where
  "create_directories_in [] w = (None, w)"
| "create_directories_in (directory # rest) w =
     (case mkdir (disk w) (Path directory) True True of
        Inl e \<Rightarrow> (Some e, w)
      | Inr d \<Rightarrow>
          create_directories_in rest
            (print (''Created directory: '' @ directory) (w\<lparr>disk := d\<rparr>)))"

definition create_directories :: action where
  "create_directories w = create_directories_in DOCS_DIRS w"

text \<open>The lines a complete run of the loop prints.\<close>

definition created_lines :: "string list \<Rightarrow> string list" where
  "created_lines ds = map (\<lambda>d. ''Created directory: '' @ d @ newline) ds"

definition pip_install :: "world \<Rightarrow> string list" where
  "pip_install w =
     [sys_executable w, ''-m'', ''pip'', ''install'', ''mkdocs'', ''mkdocs-material'',
      ''pymdown-extensions'', ''mkdocs-git-revision-date-localized-plugin'']"

definition install_dependencies :: action where
  "install_dependencies w =
     (case subprocess_run (pip_install w) w of
        (None, w') \<Rightarrow>
          (None, print ''Successfully installed MkDocs and required plugins.'' w')
      | (Some (CalledProcessError cmd returncode), w') \<Rightarrow>
          (Some (SystemExit 1),
           print (''Error installing dependencies: ''
                    @ str_CalledProcessError (signal_names w') cmd returncode) w')
      | (Some e, w') \<Rightarrow> (Some e, w'))"

definition arch_diagram_path :: path where
  "arch_diagram_path = Path ''docs/assets/agentbridge-architecture.png''"

definition expected_files :: "string list" where
  "expected_files =
    [''docs/index.md'',
     ''docs/getting-started/installation.md'',
     ''docs/getting-started/quick-start.md'',
     ''docs/core/overview.md'',
     ''docs/core/api-reference.md'',
     ''docs/core/function-registry.md'',
     ''docs/core/type-system.md'',
     ''docs/web/react/overview.md'',
     ''docs/web/react/components.md'',
     ''docs/web/react/hooks.md'',
     ''docs/web/angular/overview.md'',
     ''docs/web/angular/components.md'',
     ''docs/web/angular/services.md'',
     ''docs/mobile/react-native/overview.md'',
     ''docs/mobile/react-native/components.md'',
     ''docs/mobile/flutter/overview.md'',
     ''docs/mobile/flutter/components.md'',
     ''docs/advanced/authentication.md'',
     ''docs/advanced/error-handling.md'',
     ''docs/advanced/custom-adapters.md'',
     ''docs/development/contributing.md'',
     ''docs/development/architecture.md'']"

text \<open>The title and the section label of a placeholder, and its text.\<close>

definition placeholder_title :: "path \<Rightarrow> string" where
  "placeholder_title path = str_title (str_replace CHR ''-'' CHR '' '' (path_stem path))"

definition placeholder_parent :: "path \<Rightarrow> string" where
  "placeholder_parent path =
     str_title (str_replace CHR ''-'' CHR '' '' (path_name (path_parent path)))"

definition placeholder_content :: "string \<Rightarrow> string \<Rightarrow> string" where
  "placeholder_content title parent =
     ''# '' @ title @ newline
     @ newline
     @ ''This page is under construction. It will contain documentation about '' @ title
       @ '' in the '' @ parent @ '' section.'' @ newline
     @ newline
     @ ''## Coming Soon'' @ newline
     @ newline
     @ ''Check back soon for detailed documentation on this topic.'' @ newline"

text \<open>The text written for a missing file of the list.\<close>

definition placeholder_text :: "string \<Rightarrow> string" where
  "placeholder_text file_path =
     placeholder_content (placeholder_title (Path file_path)) (placeholder_parent (Path file_path))"

text \<open>The loop of \<open>create_placeholder_files\<close>, over any list of files.\<close>

fun write_placeholders :: "string list \<Rightarrow> action" where
  "write_placeholders [] w = (None, w)"
| "write_placeholders (file_path # rest) w =
     (let path = Path file_path in
      if \<not> path_exists (disk w) path then
        (let title = placeholder_title path;
             parent = placeholder_parent path;
             content = placeholder_content title parent
         in case write_text (disk w) path content of
              Inl e \<Rightarrow> (Some e, w)
            | Inr d \<Rightarrow>
                write_placeholders rest
                  (print (''Created placeholder file: '' @ file_path) (w\<lparr>disk := d\<rparr>)))
      else write_placeholders rest w)"

definition arch_diagram_note :: string where
  "arch_diagram_note =
     ''Note: Please create an architecture diagram at '' @ path_str arch_diagram_path"

definition create_placeholder_files :: action where
  "create_placeholder_files w =
     write_placeholders expected_files
       (if \<not> path_exists (disk w) arch_diagram_path then print arch_diagram_note w else w)"

definition build_documentation :: action where
  "build_documentation w =
     (case subprocess_run [''mkdocs'', ''build''] w of
        (None, w') \<Rightarrow>
          (None,
           print (''Documentation built successfully. You can find the output in the ''
                    @ [CHR 0x27] @ ''site'' @ [CHR 0x27] @ '' directory.'') w')
      | (Some (CalledProcessError cmd returncode), w') \<Rightarrow>
          (Some (SystemExit 1),
           print (''Error building documentation: ''
                    @ str_CalledProcessError (signal_names w') cmd returncode) w')
      | (Some e, w') \<Rightarrow> (Some e, w'))"

definition serve_documentation :: action where
  "serve_documentation w =
     (case subprocess_run [''mkdocs'', ''serve'']
             (print ''Press Ctrl+C to stop the server.''
               (print ''Serving documentation at http://127.0.0.1:8000/'' w)) of
        (None, w') \<Rightarrow> (None, w')
      | (Some (CalledProcessError cmd returncode), w') \<Rightarrow>
          (Some (SystemExit 1),
           print (''Error serving documentation: ''
                    @ str_CalledProcessError (signal_names w') cmd returncode) w')
      | (Some KeyboardInterrupt, w') \<Rightarrow> (None, print (newline @ ''Server stopped.'') w')
      | (Some e, w') \<Rightarrow> (Some e, w'))"

text \<open>
  What one round of the menu writes before it reads: four lines and the prompt of
  \<open>input\<close>, which ends without a newline.
\<close>

definition show_menu :: "world \<Rightarrow> world" where
  "show_menu w =
     (let w1 = print (newline @ ''What would you like to do next?'') w;
          w2 = print ''1. Build documentation'' w1;
          w3 = print ''2. Serve documentation locally'' w2;
          w4 = print ''3. Exit'' w3
      in w4\<lparr>stdout := stdout w4 @ [''Enter your choice (1-3): '']\<rparr>)"

text \<open>
  The \<open>while True\<close> loop of \<open>main\<close>. Every round reads one line, so the loop is a
  recursion over the lines the user types; at the end of the input \<open>input\<close> raises
  \<open>EOFError\<close>.
\<close>

fun menu :: "string list \<Rightarrow> action" where
  "menu [] w = (Some EOFError, show_menu w)"
| "menu (choice # rest) w =
     (let w1 = show_menu w in
      if choice = ''1'' then
        (case build_documentation w1 of
           (Some e, w2) \<Rightarrow> (Some e, w2)
         | (None, w2) \<Rightarrow> menu rest w2)
      else if choice = ''2'' then
        (case serve_documentation w1 of
           (Some e, w2) \<Rightarrow> (Some e, w2)
         | (None, w2) \<Rightarrow> menu rest w2)
      else if choice = ''3'' then (None, print ''Exiting...'' w1)
      else menu rest (print ''Invalid choice. Please try again.'' w1))"

definition main :: "string list \<Rightarrow> action" where
  "main input w =
     (let w0 = print ''Setting up AgentBridge documentation...'' w in
      if \<not> path_exists (disk w0) (Path ''mkdocs.yml'') then
        (Some (SystemExit 1), print ''Error: mkdocs.yml not found. Please create it first.'' w0)
      else
        (case create_directories w0 of
           (Some e, w1) \<Rightarrow> (Some e, w1)
         | (None, w1) \<Rightarrow>
             (case install_dependencies w1 of
                (Some e, w2) \<Rightarrow> (Some e, w2)
              | (None, w2) \<Rightarrow>
                  (case create_placeholder_files w2 of
                     (Some e, w3) \<Rightarrow> (Some e, w3)
                   | (None, w3) \<Rightarrow> menu input w3))))"

text \<open>
  A child process has failed for the script when it exits with a return code other than
  0 or cannot be started; an interrupt is not a failure of the child.
\<close>

fun failed :: "outcome \<Rightarrow> bool" where
  "failed (Exited returncode) = (returncode \<noteq> 0)"
| "failed Interrupted = False"
| "failed NotStarted = True"

subsection \<open>Example worlds\<close>

text \<open>
  Concrete worlds on which the theorems below are instantiated: a working directory
  that holds only the configuration file, one where \<open>docs\<close> is a regular file,
  one where the user has already written \<open>docs/index.md\<close>, and one that holds the
  whole tree of directories and no page yet. The children of a world all end the same
  way: with return code 0, with return code 2, or interrupted.
\<close>

definition example_world :: "node \<Rightarrow> (nat \<Rightarrow> outcome) \<Rightarrow> world" where
  "example_world d ch =
     \<lparr>disk = d, stdout = [], calls = [], child = ch,
      sys_executable = ''/usr/bin/python3'', signal_names = (\<lambda>signal. None)\<rparr>"

definition configured_disk :: node where
  "configured_disk = Dir (Map.empty(''mkdocs.yml'' \<mapsto> File ''site_name: AgentBridge''))"


definition edited_disk :: node where
  "edited_disk =
     Dir (Map.empty(''mkdocs.yml'' \<mapsto> File ''site_name: AgentBridge'',
                    ''docs'' \<mapsto> Dir (Map.empty(''index.md'' \<mapsto> File ''# Home''))))"

definition failing_world :: world where
  "failing_world = example_world configured_disk (\<lambda>k. Exited 2)"

definition interrupted_world :: world where
  "interrupted_world = example_world configured_disk (\<lambda>k. Interrupted)"

definition configured_world :: world where
  "configured_world = example_world configured_disk (\<lambda>k. Exited 0)"

definition scaffolded_disk :: node where
  "scaffolded_disk =
     Dir (Map.empty(
       ''mkdocs.yml'' \<mapsto> File ''site_name: AgentBridge'',
       ''docs'' \<mapsto> Dir (Map.empty(
          ''assets'' \<mapsto> Dir Map.empty,
          ''getting-started'' \<mapsto> Dir Map.empty,
          ''core'' \<mapsto> Dir Map.empty,
          ''web'' \<mapsto> Dir (Map.empty(''react'' \<mapsto> Dir Map.empty, ''angular'' \<mapsto> Dir Map.empty)),
          ''mobile'' \<mapsto> Dir (Map.empty(''react-native'' \<mapsto> Dir Map.empty,
                                         ''flutter'' \<mapsto> Dir Map.empty)),
          ''advanced'' \<mapsto> Dir Map.empty,
          ''development'' \<mapsto> Dir Map.empty))))"

definition scaffolded_world :: world where
  "scaffolded_world = example_world scaffolded_disk (\<lambda>k. Exited 0)"

section \<open>Properties of the disk operations\<close>

subsection \<open>Resolving paths\<close>

lemma is_dir_simps [simp]:
  "is_dir n [] = (\<exists>entries. n = Dir entries)"
  "is_dir (File content) (c # cs) = False"
  "is_dir (Dir entries) (c # cs) = (case entries c of None \<Rightarrow> False | Some m \<Rightarrow> is_dir m cs)"
  by (cases n; auto simp: is_dir_def split: option.splits sum.splits node.splits)+

lemma is_file_simps [simp]:
  "is_file n [] = (\<exists>content. n = File content)"
  "is_file (File content) (c # cs) = False"
  "is_file (Dir entries) (c # cs) = (case entries c of None \<Rightarrow> False | Some m \<Rightarrow> is_file m cs)"
  by (cases n; auto simp: is_file_def split: option.splits sum.splits node.splits)+

lemma path_exists_simps [simp]:
  "path_exists n [] = True"
  "path_exists (File content) (c # cs) = False"
  "path_exists (Dir entries) (c # cs) = (case entries c of None \<Rightarrow> False | Some m \<Rightarrow> path_exists m cs)"
  by (auto simp: path_exists_def split: option.splits sum.splits node.splits)

lemma path_exists_iff: "path_exists n p = (is_dir n p \<or> is_file n p)"
  by (auto simp: path_exists_def is_dir_def is_file_def split: sum.splits node.splits)

lemma is_file_iff: "is_file n p = (\<exists>content. stat n p = Inr (File content))"
  by (auto simp: is_file_def split: sum.splits node.splits)

lemma not_dir_and_file: "is_dir n p \<Longrightarrow> \<not> is_file n p"
  by (auto simp: is_dir_def is_file_def split: sum.splits node.splits)

lemma is_dir_prefix: "is_dir n (p @ q) \<Longrightarrow> is_dir n p"
proof (induction n p rule: stat.induct)
  case (1 n)
  then show ?case by (cases n; cases q) auto
next
  case (2 content c cs)
  then show ?case by simp
next
  case (3 entries c cs)
  then show ?case by (auto split: option.splits)
qed

lemma path_exists_parent: "path_exists n (p @ [c]) \<Longrightarrow> is_dir n p"
proof (induction n p rule: stat.induct)
  case (1 n)
  then show ?case by (cases n) auto
next
  case (2 content c cs)
  then show ?case by simp
next
  case (3 entries c cs)
  then show ?case by (auto split: option.splits)
qed


subsection \<open>os_mkdir\<close>

lemma os_mkdir_exists: "path_exists n p \<Longrightarrow> os_mkdir n p = Inl FileExistsError"
  by (induction n p rule: os_mkdir.induct) (auto split: option.splits)

lemma os_mkdir_file:
  "os_mkdir n p = Inr n' \<Longrightarrow> (stat n' q = Inr (File s)) = (stat n q = Inr (File s))"
proof (induction n p arbitrary: n' q rule: os_mkdir.induct)
  case (3 entries c)
  then show ?case
    by (cases q; cases "tl q") (auto split: option.splits if_splits)
next
  case (4 entries c c' cs)
  then show ?case
    by (cases q) (auto split: option.splits sum.splits if_splits)
qed simp_all

lemma os_mkdir_is_dir:
  "os_mkdir n p = Inr n' \<Longrightarrow> is_dir n' q = (is_dir n q \<or> q = p)"
proof (induction n p arbitrary: n' q rule: os_mkdir.induct)
  case (3 entries c)
  then show ?case
    by (cases q; cases "tl q") (auto split: option.splits if_splits)
next
  case (4 entries c c' cs)
  then show ?case
    by (cases q) (auto split: option.splits sum.splits if_splits)
qed simp_all

lemma blocked_simps [simp]:
  "blocked n [] = is_file n []"
  "blocked (File content) p = True"
  "blocked (Dir entries) (c # cs) = (case entries c of None \<Rightarrow> False | Some m \<Rightarrow> blocked m cs)"
  by (cases p; auto simp: blocked_def split: option.splits)+

lemma os_mkdir_under_dir:
  "is_dir n (butlast p) \<Longrightarrow> p \<noteq> [] \<Longrightarrow> \<not> path_exists n p \<Longrightarrow> \<exists>n'. os_mkdir n p = Inr n'"
  by (induction n p rule: os_mkdir.induct) (auto split: option.splits if_splits)

lemma os_mkdir_not_found:
  "os_mkdir n p = Inl FileNotFoundError \<Longrightarrow> p \<noteq> [] \<and> \<not> path_exists n p"
  by (induction n p rule: os_mkdir.induct) (auto split: option.splits sum.splits)

lemma os_mkdir_error:
  "os_mkdir n p = Inl e \<Longrightarrow>
     (e = FileNotFoundError) \<or> (e = FileExistsError \<and> path_exists n p)
     \<or> (e = NotADirectoryError \<and> blocked n p)"
  by (induction n p rule: os_mkdir.induct) (auto split: option.splits sum.splits)


subsection \<open>mkdir\<close>

lemma mkdir_noop: "is_dir n p \<Longrightarrow> mkdir n p parents True = Inr n"
  by (simp add: mkdir.simps os_mkdir_exists path_exists_iff)

lemma mkdir_cases:
  assumes "mkdir n p parents exist_ok = Inr n'"
  obtains (made) "os_mkdir n p = Inr n'"
  | (parent) m where "os_mkdir n p = Inl FileNotFoundError" "parents" "path_parent p \<noteq> p"
      "mkdir n (path_parent p) True True = Inr m" "mkdir m p False exist_ok = Inr n'"
  | (present) "n' = n" "exist_ok" "is_dir n p"
  using assms
  by (subst (asm) mkdir.simps) (auto split: sum.splits if_splits)

lemma mkdir_rel:
  assumes "mkdir n p parents exist_ok = Inr n'"
    and step: "\<And>a q b. os_mkdir a q = Inr b \<Longrightarrow> R a b"
    and refl: "\<And>a. R a a"
    and trans: "\<And>a b c. R a b \<Longrightarrow> R b c \<Longrightarrow> R a c"
  shows "R n n'"
  using assms(1)
proof (induction n p parents exist_ok arbitrary: n' rule: mkdir.induct)
  case (1 root p parents exist_ok)
  from "1.prems" show ?case
  proof (cases rule: mkdir_cases)
    case made
    then show ?thesis by (rule step)
  next
    case (parent m)
    have "R root m"
      using "1.IH"(1) parent by simp
    moreover have "R m n'"
      using "1.IH"(2) parent by simp
    ultimately show ?thesis by (rule trans)
  next
    case present
    then show ?thesis by (simp add: refl)
  qed
qed

lemma mkdir_file:
  assumes "mkdir n p parents exist_ok = Inr n'"
  shows "(stat n' q = Inr (File s)) = (stat n q = Inr (File s))"
proof -
  have "\<forall>q s. (stat n' q = Inr (File s)) = (stat n q = Inr (File s))"
    by (rule mkdir_rel [OF assms, where R = "\<lambda>a b. \<forall>q s. (stat b q = Inr (File s)) = (stat a q = Inr (File s))"])
       (auto simp: os_mkdir_file)
  then show ?thesis by simp
qed

lemma mkdir_keeps_dirs:
  assumes "mkdir n p parents exist_ok = Inr n'" and "is_dir n q"
  shows "is_dir n' q"
proof -
  have "\<forall>q. is_dir n q \<longrightarrow> is_dir n' q"
    by (rule mkdir_rel [OF assms(1), where R = "\<lambda>a b. \<forall>q. is_dir a q \<longrightarrow> is_dir b q"])
       (auto simp: os_mkdir_is_dir)
  with assms(2) show ?thesis by simp
qed

lemma mkdir_is_dir: "mkdir n p parents exist_ok = Inr n' \<Longrightarrow> is_dir n' p"
proof (induction n p parents exist_ok arbitrary: n' rule: mkdir.induct)
  case (1 root p parents exist_ok)
  from "1.prems" show ?case
  proof (cases rule: mkdir_cases)
    case made
    then show ?thesis by (simp add: os_mkdir_is_dir)
  next
    case (parent m)
    then show ?thesis using "1.IH"(2) by simp
  next
    case present
    then show ?thesis by simp
  qed
qed

lemma is_file_mkdir: "mkdir n p parents exist_ok = Inr n' \<Longrightarrow> is_file n' q = is_file n q"
  by (simp add: is_file_iff mkdir_file)

lemma blocked_mkdir: "mkdir n p parents exist_ok = Inr n' \<Longrightarrow> blocked n' q = blocked n q"
  by (simp add: blocked_def is_file_mkdir)

lemma blocked_butlast: "blocked n (butlast p) \<Longrightarrow> blocked n p"
proof -
  have "set (prefixes (butlast p)) \<subseteq> set (prefixes p)"
    using prefix_order.trans [OF _ prefixeq_butlast [of p]] by auto
  then show "blocked n (butlast p) \<Longrightarrow> blocked n p"
    by (auto simp: blocked_def)
qed

lemma is_dir_not_blocked: "is_dir n p \<Longrightarrow> \<not> blocked n p"
proof
  assume d: "is_dir n p" and "blocked n p"
  then obtain q where "prefix q p" "is_file n q" by (auto simp: blocked_def)
  then obtain r where "p = q @ r" by (auto simp: prefix_def)
  with d have "is_dir n q" by (auto dest: is_dir_prefix)
  with \<open>is_file n q\<close> show False by (simp add: not_dir_and_file)
qed

lemma mkdir_succeeds_not_blocked:
  "mkdir n p parents exist_ok = Inr n' \<Longrightarrow> \<not> blocked n p"
  using mkdir_is_dir [of n p parents exist_ok n'] is_dir_not_blocked [of n' p]
  by (simp add: blocked_mkdir)

lemma mkdir_last_step:
  assumes "is_dir n (butlast p)" and "\<not> blocked n p"
  shows "\<exists>n'. mkdir n p False True = Inr n'"
proof (cases "os_mkdir n p")
  case (Inr r)
  then show ?thesis by (simp add: mkdir.simps)
next
  case (Inl e)
  from os_mkdir_error [OF Inl] show ?thesis
  proof (elim disjE conjE)
    assume e: "e = FileNotFoundError"
    with Inl have "p \<noteq> []" "\<not> path_exists n p" by (auto dest: os_mkdir_not_found)
    with assms(1) obtain r where "os_mkdir n p = Inr r" by (auto dest: os_mkdir_under_dir)
    with Inl show ?thesis by simp
  next
    assume "e = FileExistsError" "path_exists n p"
    moreover from assms(2) have "\<not> is_file n p" by (auto simp: blocked_def)
    ultimately show ?thesis using Inl by (simp add: mkdir.simps path_exists_iff)
  next
    assume "blocked n p"
    with assms(2) show ?thesis by simp
  qed
qed

lemma mkdir_parents_succeeds:
  "\<not> blocked n p \<Longrightarrow> \<exists>n'. mkdir n p True True = Inr n'"
proof (induction p arbitrary: n rule: rev_induct)
  case Nil
  then have "is_dir n []" by (cases n) auto
  then show ?case by (auto simp: mkdir_noop)
next
  case (snoc c p)
  from snoc.prems have "\<not> blocked n p" using blocked_butlast [of n "p @ [c]"] by auto
  with snoc.IH obtain m where m: "mkdir n p True True = Inr m" by blast
  then have "is_dir m p" by (rule mkdir_is_dir)
  moreover from snoc.prems m have "\<not> blocked m (p @ [c])" by (simp add: blocked_mkdir)
  ultimately obtain r where r: "mkdir m (p @ [c]) False True = Inr r"
    using mkdir_last_step [of m "p @ [c]"] by auto
  show ?case
  proof (cases "os_mkdir n (p @ [c])")
    case (Inr x)
    then show ?thesis by (simp add: mkdir.simps)
  next
    case (Inl e)
    from os_mkdir_error [OF Inl] show ?thesis
    proof (elim disjE conjE)
      assume "e = FileNotFoundError"
      with Inl m r show ?thesis by (simp add: mkdir.simps path_parent_def)
    next
      assume "e = FileExistsError" "path_exists n (p @ [c])"
      moreover from snoc.prems have "\<not> is_file n (p @ [c])" by (auto simp: blocked_def)
      ultimately show ?thesis using Inl by (simp add: mkdir.simps path_exists_iff)
    next
      assume "blocked n (p @ [c])"
      with snoc.prems show ?thesis by simp
    qed
  qed
qed


subsection \<open>write_text\<close>

lemma write_text_file:
  "write_text n p s = Inr n' \<Longrightarrow>
     (stat n' q = Inr (File c)) = (if q = p then c = s else stat n q = Inr (File c))"
proof (induction n p s arbitrary: n' q rule: write_text.induct)
  case (3 entries c s)
  then show ?case
    by (cases q; cases "tl q") (auto split: option.splits node.splits if_splits)
next
  case (4 entries c c' cs s)
  then show ?case
    by (cases q) (auto split: option.splits sum.splits if_splits)
qed simp_all

lemma write_text_is_dir:
  "write_text n p s = Inr n' \<Longrightarrow> is_dir n' q = is_dir n q"
proof (induction n p s arbitrary: n' q rule: write_text.induct)
  case (3 entries c s)
  then show ?case
    by (cases q; cases "tl q") (auto split: option.splits node.splits if_splits)
next
  case (4 entries c c' cs s)
  then show ?case
    by (cases q) (auto split: option.splits sum.splits if_splits)
qed simp_all

lemma write_text_under_dir:
  "is_dir n (butlast p) \<Longrightarrow> \<not> path_exists n p \<Longrightarrow> \<exists>n'. write_text n p s = Inr n'"
  by (induction n p s rule: write_text.induct) (auto split: option.splits node.splits if_splits)

lemma write_text_exists:
  "write_text n p s = Inr n' \<Longrightarrow> path_exists n' q = (path_exists n q \<or> q = p)"
  by (auto simp: path_exists_iff is_file_iff write_text_file write_text_is_dir)

section \<open>Properties of the loops\<close>

lemma print_fields [simp]:
  "disk (print s w) = disk w"
  "stdout (print s w) = stdout w @ [s @ newline]"
  "calls (print s w) = calls w"
  "child (print s w) = child w"
  "sys_executable (print s w) = sys_executable w"
  "signal_names (print s w) = signal_names w"
  by (simp_all add: print_def)

lemma create_directories_in_Cons:
  assumes "create_directories_in (d # ds) w = (None, w')"
  obtains m where "mkdir (disk w) (Path d) True True = Inr m"
    and "create_directories_in ds (print (''Created directory: '' @ d) (w\<lparr>disk := m\<rparr>)) = (None, w')"
  using assms by (auto split: sum.splits)

lemma create_directories_in_keeps_dirs:
  "create_directories_in ds w = (None, w') \<Longrightarrow> is_dir (disk w) q \<Longrightarrow> is_dir (disk w') q"
proof (induction ds arbitrary: w)
  case Nil
  then show ?case by simp
next
  case (Cons d ds)
  from Cons.prems(1) obtain m where m: "mkdir (disk w) (Path d) True True = Inr m"
    and rest: "create_directories_in ds (print (''Created directory: '' @ d) (w\<lparr>disk := m\<rparr>)) = (None, w')"
    by (rule create_directories_in_Cons)
  from m Cons.prems(2) have "is_dir m q" by (rule mkdir_keeps_dirs)
  with Cons.IH [OF rest] show ?case by simp
qed

lemma create_directories_in_file:
  "create_directories_in ds w = (None, w') \<Longrightarrow>
     (stat (disk w') q = Inr (File s)) = (stat (disk w) q = Inr (File s))"
proof (induction ds arbitrary: w)
  case Nil
  then show ?case by simp
next
  case (Cons d ds)
  from Cons.prems(1) obtain m where m: "mkdir (disk w) (Path d) True True = Inr m"
    and rest: "create_directories_in ds (print (''Created directory: '' @ d) (w\<lparr>disk := m\<rparr>)) = (None, w')"
    by (rule create_directories_in_Cons)
  from Cons.IH [OF rest] mkdir_file [OF m] show ?case by simp
qed

lemma create_directories_in_is_dir:
  "create_directories_in ds w = (None, w') \<Longrightarrow> d \<in> set ds \<Longrightarrow> is_dir (disk w') (Path d)"
proof (induction ds arbitrary: w)
  case Nil
  then show ?case by simp
next
  case (Cons a ds)
  from Cons.prems(1) obtain m where m: "mkdir (disk w) (Path a) True True = Inr m"
    and rest: "create_directories_in ds (print (''Created directory: '' @ a) (w\<lparr>disk := m\<rparr>)) = (None, w')"
    by (rule create_directories_in_Cons)
  show ?case
  proof (cases "d = a")
    case True
    from m have "is_dir m (Path a)" by (rule mkdir_is_dir)
    with create_directories_in_keeps_dirs [OF rest, of "Path a"] True show ?thesis by simp
  next
    case False
    with Cons.prems(2) have "d \<in> set ds" by simp
    with Cons.IH [OF rest] show ?thesis by simp
  qed
qed

lemma create_directories_in_world:
  "create_directories_in ds w = (None, w') \<Longrightarrow>
     w' = w\<lparr>disk := disk w', stdout := stdout w @ created_lines ds\<rparr>"
proof (induction ds arbitrary: w)
  case Nil
  then show ?case by (simp add: created_lines_def)
next
  case (Cons d ds)
  from Cons.prems(1) obtain m where m: "mkdir (disk w) (Path d) True True = Inr m"
    and rest: "create_directories_in ds (print (''Created directory: '' @ d) (w\<lparr>disk := m\<rparr>)) = (None, w')"
    by (rule create_directories_in_Cons)
  from Cons.IH [OF rest] show ?case
    by (simp add: created_lines_def print_def)
qed

lemma create_directories_in_succeeds:
  "\<forall>d \<in> set ds. \<not> blocked (disk w) (Path d) \<Longrightarrow> \<exists>w'. create_directories_in ds w = (None, w')"
proof (induction ds arbitrary: w)
  case Nil
  then show ?case by simp
next
  case (Cons d ds)
  then have "\<not> blocked (disk w) (Path d)" by simp
  then obtain m where m: "mkdir (disk w) (Path d) True True = Inr m"
    using mkdir_parents_succeeds by blast
  with Cons.prems have "\<forall>x \<in> set ds. \<not> blocked m (Path x)"
    by (simp add: blocked_mkdir)
  then have "\<exists>w'. create_directories_in ds (print (''Created directory: '' @ d) (w\<lparr>disk := m\<rparr>)) = (None, w')"
    using Cons.IH [of "print (''Created directory: '' @ d) (w\<lparr>disk := m\<rparr>)"] by simp
  with m show ?case by simp
qed

lemma create_directories_in_not_blocked:
  "create_directories_in ds w = (None, w') \<Longrightarrow> d \<in> set ds \<Longrightarrow> \<not> blocked (disk w) (Path d)"
proof -
  assume run: "create_directories_in ds w = (None, w')" and "d \<in> set ds"
  then have "is_dir (disk w') (Path d)" by (rule create_directories_in_is_dir)
  then have "\<not> blocked (disk w') (Path d)" by (rule is_dir_not_blocked)
  then show ?thesis
    by (simp add: blocked_def is_file_iff create_directories_in_file [OF run])
qed



lemma write_placeholders_Cons_missing:
  assumes "\<not> path_exists (disk w) (Path f)"
    and "write_text (disk w) (Path f) (placeholder_text f) = Inr m"
  shows "write_placeholders (f # fs) w =
           write_placeholders fs (print (''Created placeholder file: '' @ f) (w\<lparr>disk := m\<rparr>))"
  using assms by (simp add: placeholder_text_def Let_def)

lemma write_placeholders_Cons_present:
  "path_exists (disk w) (Path f) \<Longrightarrow> write_placeholders (f # fs) w = write_placeholders fs w"
  by simp

lemma write_placeholders_total:
  assumes "\<forall>f \<in> set fs. is_dir (disk w) (path_parent (Path f))"
  shows "\<exists>w'. write_placeholders fs w = (None, w')
           \<and> (\<forall>q. is_dir (disk w') q = is_dir (disk w) q)
           \<and> (\<forall>q. path_exists (disk w') q = (path_exists (disk w) q \<or> q \<in> Path ` set fs))
           \<and> (\<forall>q c. stat (disk w) q = Inr (File c) \<longrightarrow> stat (disk w') q = Inr (File c))
           \<and> (\<forall>f \<in> set fs. \<not> path_exists (disk w) (Path f) \<longrightarrow>
                  stat (disk w') (Path f) = Inr (File (placeholder_text f)))"
  using assms
proof (induction fs arbitrary: w)
  case Nil
  then show ?case by simp
next
  case (Cons f fs)
  show ?case
  proof (cases "path_exists (disk w) (Path f)")
    case True
    from Cons.prems have "\<forall>x \<in> set fs. is_dir (disk w) (path_parent (Path x))" by simp
    from Cons.IH [OF this] obtain w' where run: "write_placeholders fs w = (None, w')"
      and dirs: "\<forall>q. is_dir (disk w') q = is_dir (disk w) q"
      and ex: "\<forall>q. path_exists (disk w') q = (path_exists (disk w) q \<or> q \<in> Path ` set fs)"
      and old: "\<forall>q c. stat (disk w) q = Inr (File c) \<longrightarrow> stat (disk w') q = Inr (File c)"
      and new: "\<forall>x \<in> set fs. \<not> path_exists (disk w) (Path x) \<longrightarrow>
                  stat (disk w') (Path x) = Inr (File (placeholder_text x))"
      by blast
    have "write_placeholders (f # fs) w = (None, w')"
      using True run by simp
    moreover have "\<forall>q. path_exists (disk w') q = (path_exists (disk w) q \<or> q \<in> Path ` set (f # fs))"
      using ex True by auto
    moreover have "\<forall>x \<in> set (f # fs). \<not> path_exists (disk w) (Path x) \<longrightarrow>
                  stat (disk w') (Path x) = Inr (File (placeholder_text x))"
      using new True by auto
    ultimately show ?thesis using dirs old by blast
  next
    case False
    from Cons.prems have "is_dir (disk w) (butlast (Path f))" by (simp add: path_parent_def)
    with False obtain m where m: "write_text (disk w) (Path f) (placeholder_text f) = Inr m"
      using write_text_under_dir by blast
    let ?w1 = "print (''Created placeholder file: '' @ f) (w\<lparr>disk := m\<rparr>)"
    have step: "write_placeholders (f # fs) w = write_placeholders fs ?w1"
      using False m by (rule write_placeholders_Cons_missing)
    have "\<forall>x \<in> set fs. is_dir (disk ?w1) (path_parent (Path x))"
      using Cons.prems by (simp add: write_text_is_dir [OF m])
    from Cons.IH [OF this] obtain w' where run: "write_placeholders fs ?w1 = (None, w')"
      and dirs: "\<forall>q. is_dir (disk w') q = is_dir m q"
      and ex: "\<forall>q. path_exists (disk w') q = (path_exists m q \<or> q \<in> Path ` set fs)"
      and old: "\<forall>q c. stat m q = Inr (File c) \<longrightarrow> stat (disk w') q = Inr (File c)"
      and new: "\<forall>x \<in> set fs. \<not> path_exists m (Path x) \<longrightarrow>
                  stat (disk w') (Path x) = Inr (File (placeholder_text x))"
      by auto
    have written: "stat m (Path f) = Inr (File (placeholder_text f))"
      by (simp add: write_text_file [OF m])
    have kept: "stat m q = Inr (File c)" if "stat (disk w) q = Inr (File c)" for q c
    proof -
      from that have "path_exists (disk w) q" by (simp add: path_exists_def)
      with False have "q \<noteq> Path f" by auto
      with that show ?thesis by (simp add: write_text_file [OF m])
    qed
    have "write_placeholders (f # fs) w = (None, w')"
      using step run by simp
    moreover have "\<forall>q. is_dir (disk w') q = is_dir (disk w) q"
      using dirs by (simp add: write_text_is_dir [OF m])
    moreover have "\<forall>q. path_exists (disk w') q = (path_exists (disk w) q \<or> q \<in> Path ` set (f # fs))"
      using ex by (auto simp: write_text_exists [OF m])
    moreover have "\<forall>q c. stat (disk w) q = Inr (File c) \<longrightarrow> stat (disk w') q = Inr (File c)"
      using old kept by blast
    moreover have "\<forall>x \<in> set (f # fs). \<not> path_exists (disk w) (Path x) \<longrightarrow>
                  stat (disk w') (Path x) = Inr (File (placeholder_text x))"
    proof (intro ballI impI)
      fix x assume x: "x \<in> set (f # fs)" and missing: "\<not> path_exists (disk w) (Path x)"
      show "stat (disk w') (Path x) = Inr (File (placeholder_text x))"
      proof (cases "Path x = Path f")
        case True
        have "placeholder_text x = placeholder_text f"
          using True by (simp add: placeholder_text_def)
        with written old True show ?thesis by simp
      next
        case False
        with x have "x \<in> set fs" by auto
        moreover from False missing have "\<not> path_exists m (Path x)"
          by (simp add: write_text_exists [OF m])
        ultimately show ?thesis using new by blast
      qed
    qed
    ultimately show ?thesis by blast
  qed
qed

section \<open>Properties of the script\<close>

subsection \<open>The fixed lists\<close>

lemma Path_DOCS_DIRS:
  "map Path DOCS_DIRS =
    [[''docs'', ''assets''], [''docs'', ''getting-started''], [''docs'', ''core''],
     [''docs'', ''web'', ''react''], [''docs'', ''web'', ''angular''],
     [''docs'', ''mobile'', ''react-native''], [''docs'', ''mobile'', ''flutter''],
     [''docs'', ''advanced''], [''docs'', ''development'']]"
  by (simp add: DOCS_DIRS_def Path_def str_split_def)

lemma Path_expected_files:
  "map Path expected_files =
    [[''docs'', ''index.md''],
     [''docs'', ''getting-started'', ''installation.md''],
     [''docs'', ''getting-started'', ''quick-start.md''],
     [''docs'', ''core'', ''overview.md''],
     [''docs'', ''core'', ''api-reference.md''],
     [''docs'', ''core'', ''function-registry.md''],
     [''docs'', ''core'', ''type-system.md''],
     [''docs'', ''web'', ''react'', ''overview.md''],
     [''docs'', ''web'', ''react'', ''components.md''],
     [''docs'', ''web'', ''react'', ''hooks.md''],
     [''docs'', ''web'', ''angular'', ''overview.md''],
     [''docs'', ''web'', ''angular'', ''components.md''],
     [''docs'', ''web'', ''angular'', ''services.md''],
     [''docs'', ''mobile'', ''react-native'', ''overview.md''],
     [''docs'', ''mobile'', ''react-native'', ''components.md''],
     [''docs'', ''mobile'', ''flutter'', ''overview.md''],
     [''docs'', ''mobile'', ''flutter'', ''components.md''],
     [''docs'', ''advanced'', ''authentication.md''],
     [''docs'', ''advanced'', ''error-handling.md''],
     [''docs'', ''advanced'', ''custom-adapters.md''],
     [''docs'', ''development'', ''contributing.md''],
     [''docs'', ''development'', ''architecture.md'']]"
  by (simp add: expected_files_def Path_def str_split_def)

lemma Path_mkdocs_yml: "Path ''mkdocs.yml'' = [''mkdocs.yml'']"
  by (simp add: Path_def str_split_def)

lemma arch_diagram_path_parts:
  "arch_diagram_path = [''docs'', ''assets'', ''agentbridge-architecture.png'']"
  by (simp add: arch_diagram_path_def Path_def str_split_def)

lemma configured_disk_config: "path_exists configured_disk (Path ''mkdocs.yml'')"
  by (simp add: configured_disk_def Path_mkdocs_yml)

lemma configured_disk_not_blocked:
  "\<forall>d \<in> set DOCS_DIRS. \<not> blocked configured_disk (Path d)"
proof -
  have "list_all (\<lambda>p. \<not> blocked configured_disk p) (map Path DOCS_DIRS)"
    unfolding Path_DOCS_DIRS by (simp add: configured_disk_def)
  then show ?thesis by (simp add: list_all_iff)
qed

lemma edited_disk_not_blocked:
  "\<forall>d \<in> set DOCS_DIRS. \<not> blocked edited_disk (Path d)"
proof -
  have "list_all (\<lambda>p. \<not> blocked edited_disk p) (map Path DOCS_DIRS)"
    unfolding Path_DOCS_DIRS by (simp add: edited_disk_def)
  then show ?thesis by (simp add: list_all_iff)
qed

lemma expected_parents:
  "\<forall>f \<in> set expected_files. \<exists>d \<in> set DOCS_DIRS. prefix (path_parent (Path f)) (Path d)"
proof -
  have "list_all (\<lambda>p. list_ex (\<lambda>q. prefix (path_parent p) q) (map Path DOCS_DIRS))
          (map Path expected_files)"
    unfolding Path_DOCS_DIRS Path_expected_files by (simp add: path_parent_def)
  then show ?thesis
    by (auto simp: list_all_iff list_ex_iff)
qed


lemma show_menu_fields [simp]:
  "disk (show_menu w) = disk w"
  "calls (show_menu w) = calls w"
  "child (show_menu w) = child w"
  "sys_executable (show_menu w) = sys_executable w"
  "signal_names (show_menu w) = signal_names w"
  by (simp_all add: show_menu_def Let_def)

lemma subprocess_run_exited:
  "child w (length (calls w)) = Exited returncode \<Longrightarrow>
     subprocess_run cmd w =
       (if returncode \<noteq> 0 then Some (CalledProcessError cmd returncode) else None,
        w\<lparr>calls := calls w @ [cmd]\<rparr>)"
  by (simp add: subprocess_run_def Let_def)

lemma subprocess_run_interrupted:
  "child w (length (calls w)) = Interrupted \<Longrightarrow>
     subprocess_run cmd w = (Some KeyboardInterrupt, w\<lparr>calls := calls w @ [cmd]\<rparr>)"
  by (simp add: subprocess_run_def Let_def)

lemma subprocess_run_not_started:
  "child w (length (calls w)) = NotStarted \<Longrightarrow>
     subprocess_run cmd w = (Some FileNotFoundError, w\<lparr>calls := calls w @ [cmd]\<rparr>)"
  by (simp add: subprocess_run_def Let_def)

lemma install_dependencies_failed:
  assumes "child w (length (calls w)) = out" and "failed out"
  shows "exit_status (fst (install_dependencies w)) = 1"
  using assms
  by (cases out)
     (simp_all add: install_dependencies_def subprocess_run_exited subprocess_run_not_started)

lemma build_documentation_failed:
  assumes "child w (length (calls w)) = out" and "failed out"
  shows "exit_status (fst (build_documentation w)) = 1"
  using assms
  by (cases out)
     (simp_all add: build_documentation_def subprocess_run_exited subprocess_run_not_started)

lemma serve_documentation_failed:
  assumes "child w (length (calls w)) = out" and "failed out"
  shows "exit_status (fst (serve_documentation w)) = 1"
  using assms
  by (cases out)
     (simp_all add: serve_documentation_def subprocess_run_exited subprocess_run_not_started)

lemma exit_status_nonzero_Some: "exit_status r = Suc 0 \<Longrightarrow> \<exists>e. r = Some e"
  by (cases r) simp_all

lemma menu_build_failed:
  assumes "child w (length (calls w)) = out" and "failed out"
  shows "exit_status (fst (menu (''1'' # rest) w)) = 1"
proof -
  have "exit_status (fst (build_documentation (show_menu w))) = 1"
    using assms by (intro build_documentation_failed [where out = out]) simp_all
  then show ?thesis
    by (cases "build_documentation (show_menu w)")
       (auto simp: Let_def split: option.splits)
qed

lemma menu_serve_failed:
  assumes "child w (length (calls w)) = out" and "failed out"
  shows "exit_status (fst (menu (''2'' # rest) w)) = 1"
proof -
  have "exit_status (fst (serve_documentation (show_menu w))) = 1"
    using assms by (intro serve_documentation_failed [where out = out]) simp_all
  then show ?thesis
    by (cases "serve_documentation (show_menu w)")
       (auto simp: Let_def split: option.splits)
qed

lemma create_directories_in_fields:
  assumes "create_directories_in ds w = (None, w')"
  shows "stdout w' = stdout w @ created_lines ds" and "calls w' = calls w"
    and "child w' = child w" and "sys_executable w' = sys_executable w"
    and "signal_names w' = signal_names w"
proof -
  note eq = create_directories_in_world [OF assms]
  show "stdout w' = stdout w @ created_lines ds"
    using arg_cong [OF eq, of stdout] by simp
  show "calls w' = calls w"
    using arg_cong [OF eq, of calls] by simp
  show "child w' = child w"
    using arg_cong [OF eq, of child] by simp
  show "sys_executable w' = sys_executable w"
    using arg_cong [OF eq, of sys_executable] by simp
  show "signal_names w' = signal_names w"
    using arg_cong [OF eq, of signal_names] by simp
qed

lemma create_directories_succeeds:
  assumes "\<forall>d \<in> set DOCS_DIRS. \<not> blocked (disk w) (Path d)"
  obtains w1 where "create_directories w = (None, w1)"
proof -
  from assms obtain w1 where "create_directories_in DOCS_DIRS w = (None, w1)"
    using create_directories_in_succeeds by blast
  with that show ?thesis
    by (simp add: create_directories_def)
qed

lemma main_install_failed:
  assumes config: "path_exists (disk w) (Path ''mkdocs.yml'')"
    and free: "\<forall>d \<in> set DOCS_DIRS. \<not> blocked (disk w) (Path d)"
    and out: "child w (length (calls w)) = out" and failed: "failed out"
  shows "exit_status (fst (main input w)) = 1"
proof -
  let ?w0 = "print ''Setting up AgentBridge documentation...'' w"
  from free obtain w1 where run: "create_directories ?w0 = (None, w1)"
    using create_directories_succeeds [of ?w0] by auto
  then have "calls w1 = calls w" "child w1 = child w"
    using create_directories_in_fields [of DOCS_DIRS ?w0 w1]
    by (simp_all add: create_directories_def)
  with out have "child w1 (length (calls w1)) = out" by simp
  then have e: "exit_status (fst (install_dependencies w1)) = 1"
    using failed by (rule install_dependencies_failed)
  then obtain err w2 where "install_dependencies w1 = (Some err, w2)"
    by (cases "install_dependencies w1") (auto dest: exit_status_nonzero_Some)
  with e config run show ?thesis
    by (simp add: main_def Let_def)
qed


lemma write_placeholders_fields:
  "write_placeholders fs w = (r, w') \<Longrightarrow>
     calls w' = calls w \<and> child w' = child w \<and> sys_executable w' = sys_executable w
     \<and> signal_names w' = signal_names w"
proof (induction fs arbitrary: w)
  case Nil
  then show ?case by simp
next
  case (Cons f fs)
  show ?case
  proof (cases "path_exists (disk w) (Path f)")
    case True
    with Cons show ?thesis by simp
  next
    case False
    show ?thesis
    proof (cases "write_text (disk w) (Path f) (placeholder_text f)")
      case (Inl e)
      with False Cons.prems show ?thesis
        by (simp add: Let_def placeholder_text_def)
    next
      case (Inr m)
      from Cons.prems have "write_placeholders fs
          (print (''Created placeholder file: '' @ f) (w\<lparr>disk := m\<rparr>)) = (r, w')"
        by (simp only: write_placeholders_Cons_missing [OF False Inr])
      from Cons.IH [OF this] show ?thesis by simp
    qed
  qed
qed

lemma parents_after_create_directories:
  assumes "create_directories w = (None, w1)"
  shows "\<forall>f \<in> set expected_files. is_dir (disk w1) (path_parent (Path f))"
proof
  fix f assume "f \<in> set expected_files"
  with expected_parents obtain d where d: "d \<in> set DOCS_DIRS"
    and "prefix (path_parent (Path f)) (Path d)" by blast
  then obtain r where r: "Path d = path_parent (Path f) @ r" by (auto simp: prefix_def)
  from assms d have "is_dir (disk w1) (Path d)"
    by (simp add: create_directories_def create_directories_in_is_dir)
  with r show "is_dir (disk w1) (path_parent (Path f))"
    using is_dir_prefix [of "disk w1" "path_parent (Path f)" r] by simp
qed

lemma create_placeholder_files_total:
  assumes "\<forall>f \<in> set expected_files. is_dir (disk w) (path_parent (Path f))"
  shows "\<exists>w'. create_placeholder_files w = (None, w')
           \<and> (\<forall>q. is_dir (disk w') q = is_dir (disk w) q)
           \<and> (\<forall>q. path_exists (disk w') q = (path_exists (disk w) q \<or> q \<in> Path ` set expected_files))
           \<and> (\<forall>q c. stat (disk w) q = Inr (File c) \<longrightarrow> stat (disk w') q = Inr (File c))
           \<and> (\<forall>f \<in> set expected_files. \<not> path_exists (disk w) (Path f) \<longrightarrow>
                  stat (disk w') (Path f) = Inr (File (placeholder_text f)))"
proof -
  let ?v = "if \<not> path_exists (disk w) arch_diagram_path then print arch_diagram_note w else w"
  have v: "disk ?v = disk w" by simp
  have "\<forall>f \<in> set expected_files. is_dir (disk ?v) (path_parent (Path f))"
    using assms by (simp only: v)
  from write_placeholders_total [OF this] show ?thesis
    by (simp only: v create_placeholder_files_def)
qed

lemma write_placeholders_stdout:
  "write_placeholders fs w = (r, w') \<Longrightarrow> prefix (stdout w) (stdout w')"
proof (induction fs arbitrary: w)
  case Nil
  then show ?case by simp
next
  case (Cons f fs)
  show ?case
  proof (cases "path_exists (disk w) (Path f)")
    case True
    with Cons show ?thesis by simp
  next
    case False
    show ?thesis
    proof (cases "write_text (disk w) (Path f) (placeholder_text f)")
      case (Inl e)
      with False Cons.prems show ?thesis
        by (simp add: Let_def placeholder_text_def)
    next
      case (Inr m)
      from Cons.prems have "write_placeholders fs
          (print (''Created placeholder file: '' @ f) (w\<lparr>disk := m\<rparr>)) = (r, w')"
        by (simp only: write_placeholders_Cons_missing [OF False Inr])
      from Cons.IH [OF this] show ?thesis
        by (auto simp: prefix_def)
    qed
  qed
qed

lemma create_placeholder_files_stdout:
  "create_placeholder_files w = (r, w') \<Longrightarrow> prefix (stdout w) (stdout w')"
proof -
  assume run: "create_placeholder_files w = (r, w')"
  let ?v = "if \<not> path_exists (disk w) arch_diagram_path then print arch_diagram_note w else w"
  from run have "write_placeholders expected_files ?v = (r, w')"
    by (simp add: create_placeholder_files_def)
  then have "prefix (stdout ?v) (stdout w')" by (rule write_placeholders_stdout)
  moreover have "prefix (stdout w) (stdout ?v)" by simp
  ultimately show ?thesis by (rule prefix_order.trans [rotated])
qed

lemma main_setup:
  assumes config: "path_exists (disk w) (Path ''mkdocs.yml'')"
    and free: "\<forall>d \<in> set DOCS_DIRS. \<not> blocked (disk w) (Path d)"
    and out: "child w (length (calls w)) = Exited 0"
  obtains w3 where "main input w = menu input w3" and "calls w3 = calls w @ [pip_install w]"
    and "child w3 = child w"
    and "prefix (stdout w @ [''Setting up AgentBridge documentation...'' @ newline]
                  @ created_lines DOCS_DIRS
                  @ [''Successfully installed MkDocs and required plugins.'' @ newline])
           (stdout w3)"
proof -
  let ?w0 = "print ''Setting up AgentBridge documentation...'' w"
  from free obtain w1 where run: "create_directories ?w0 = (None, w1)"
    using create_directories_succeeds [of ?w0] by auto
  then have w1: "calls w1 = calls w" "child w1 = child w" "sys_executable w1 = sys_executable w"
    and out1: "stdout w1 = stdout ?w0 @ created_lines DOCS_DIRS"
    using create_directories_in_fields [of DOCS_DIRS ?w0 w1]
    by (simp_all add: create_directories_def)
  let ?w2 = "print ''Successfully installed MkDocs and required plugins.''
               (w1\<lparr>calls := calls w1 @ [pip_install w1]\<rparr>)"
  from out w1 have "child w1 (length (calls w1)) = Exited 0" by simp
  then have inst: "install_dependencies w1 = (None, ?w2)"
    by (simp add: install_dependencies_def subprocess_run_exited)
  have "\<forall>f \<in> set expected_files. is_dir (disk ?w2) (path_parent (Path f))"
    using parents_after_create_directories [OF run] by simp
  then obtain w3 where files: "create_placeholder_files ?w2 = (None, w3)"
    using create_placeholder_files_total by blast
  then have "calls w3 = calls ?w2" "child w3 = child ?w2"
    using write_placeholders_fields [of expected_files _ None w3]
    by (simp_all add: create_placeholder_files_def split: if_splits)
  then have "calls w3 = calls w @ [pip_install w]" "child w3 = child w"
    using w1 by (simp_all add: pip_install_def)
  moreover have "main input w = menu input w3"
    using config run inst files by (simp add: main_def Let_def)
  moreover have "prefix (stdout w @ [''Setting up AgentBridge documentation...'' @ newline]
                  @ created_lines DOCS_DIRS
                  @ [''Successfully installed MkDocs and required plugins.'' @ newline])
           (stdout w3)"
    using create_placeholder_files_stdout [OF files] out1 by simp
  ultimately show ?thesis using that by blast
qed

section \<open>The claims\<close>

subsection \<open>The menu and the exit status\<close>

text \<open>
  Claim C3. When \<open>mkdocs.yml\<close> does not exist in the working directory, \<open>main\<close>
  prints an error and ends with exit status 1: the only change to the world is the two
  lines on standard output, so no directory is created, no child process is started (no
  install) and no placeholder is written.
\<close>

theorem main_without_config:
  assumes "\<not> path_exists (disk w) (Path ''mkdocs.yml'')"
  shows "main input w =
           (Some (SystemExit 1),
            w\<lparr>stdout := stdout w @
               [''Setting up AgentBridge documentation...'' @ newline,
                ''Error: mkdocs.yml not found. Please create it first.'' @ newline]\<rparr>)
         \<and> exit_status (fst (main input w)) \<noteq> 0
         \<and> disk (snd (main input w)) = disk w
         \<and> calls (snd (main input w)) = calls w"
  using assms by (simp add: main_def Let_def print_def)

text \<open>In an empty working directory: exit status 1, no child process, no \<open>docs/assets\<close>.\<close>

theorem main_without_config_witness:
  "exit_status (fst (main [''1''] (example_world (Dir Map.empty) (\<lambda>k. Exited 0)))) = 1
   \<and> calls (snd (main [''1''] (example_world (Dir Map.empty) (\<lambda>k. Exited 0)))) = []
   \<and> \<not> path_exists (disk (snd (main [''1''] (example_world (Dir Map.empty) (\<lambda>k. Exited 0)))))
         (Path ''docs/assets'')"
proof -
  have "\<not> path_exists (disk (example_world (Dir Map.empty) (\<lambda>k. Exited 0))) (Path ''mkdocs.yml'')"
    by (simp add: example_world_def Path_mkdocs_yml)
  from main_without_config [OF this, of "[''1'']"] show ?thesis
    by (simp add: example_world_def Path_def str_split_def)
qed

text \<open>
  Claim C4. When the user chooses \<open>2\<close> and the interrupt arrives while the script
  waits for \<open>mkdocs serve\<close>, \<open>serve_documentation\<close> returns normally after printing
  \<open>Server stopped.\<close>, and the loop goes on with the next round: the menu is shown
  again in the world \<open>w'\<close> the server left, and the next line typed is read there. A
  \<open>3\<close> then ends the script normally, any other line is answered as an invalid
  choice and followed by one more round, and the end of the input raises \<open>EOFError\<close>
  at the prompt of that next round.
\<close>

theorem serve_interrupt_returns_to_menu:
  assumes "child w (length (calls w)) = Interrupted"
  shows "\<exists>w'. serve_documentation (show_menu w) = (None, w')
           \<and> last (stdout w') = newline @ ''Server stopped.'' @ newline
           \<and> calls w' = calls w @ [[''mkdocs'', ''serve'']]
           \<and> menu (''2'' # rest) w = menu rest w'
           \<and> menu (''2'' # ''3'' # rest) w = (None, print ''Exiting...'' (show_menu w'))
           \<and> menu (''2'' # ''?'' # ''3'' # rest) w =
               (None, print ''Exiting...''
                  (show_menu (print ''Invalid choice. Please try again.'' (show_menu w'))))
           \<and> menu [''2''] w = (Some EOFError, show_menu w')"
  using assms by (simp add: Let_def serve_documentation_def subprocess_run_interrupted)

text \<open>
  After the interrupt the next choice is read: \<open>3\<close> ends the script normally, and
  the server is the only child that was started.
\<close>

theorem serve_interrupt_returns_to_menu_witness:
  "fst (menu [''2'', ''3''] interrupted_world) = None
   \<and> last (stdout (snd (menu [''2'', ''3''] interrupted_world))) = ''Exiting...'' @ newline
   \<and> calls (snd (menu [''2'', ''3''] interrupted_world)) = [[''mkdocs'', ''serve'']]"
proof -
  have "child interrupted_world (length (calls interrupted_world)) = Interrupted"
    by (simp add: interrupted_world_def example_world_def)
  from serve_interrupt_returns_to_menu [OF this, of "[]"] show ?thesis
    by (auto simp: interrupted_world_def example_world_def)
qed

text \<open>
  Claim C5. When the user chooses \<open>1\<close> and \<open>mkdocs build\<close> exits with a return code
  other than 0, the script prints \<open>Error building documentation: ...\<close> and ends with
  \<open>sys.exit(1)\<close>. The final world holds one menu and one child process, whatever the
  user would have typed next: the menu is not shown again.
\<close>

theorem build_failure_exits:
  assumes "child w (length (calls w)) = Exited returncode" and "returncode \<noteq> 0"
  shows "menu (''1'' # rest) w =
           (Some (SystemExit 1),
            print (''Error building documentation: ''
                     @ str_CalledProcessError (signal_names w) [''mkdocs'', ''build''] returncode)
              ((show_menu w)\<lparr>calls := calls w @ [[''mkdocs'', ''build'']]\<rparr>))
         \<and> exit_status (fst (menu (''1'' # rest) w)) \<noteq> 0"
  using assms by (simp add: Let_def build_documentation_def subprocess_run_exited)

text \<open>With a build that exits with 2, the choice \<open>3\<close> typed after \<open>1\<close> is never read.\<close>

theorem build_failure_exits_witness:
  "exit_status (fst (menu [''1'', ''3''] failing_world)) = 1
   \<and> calls (snd (menu [''1'', ''3''] failing_world)) = [[''mkdocs'', ''build'']]"
proof -
  have "child failing_world (length (calls failing_world)) = Exited 2"
    by (simp add: failing_world_def example_world_def)
  from build_failure_exits [OF this, of "[''3'']"] show ?thesis
    by (simp add: failing_world_def example_world_def)
qed

text \<open>
  Claim C6. When the user chooses \<open>3\<close>, the round prints \<open>Exiting...\<close>, starts no
  child process and leaves the loop, in any world \<open>v\<close> the menu is reached in. When
  that is the first choice after a setup that went through, \<open>main\<close> shows the menu
  once after the lines of the setup, prints \<open>Exiting...\<close> as its last line and returns
  normally (exit status 0); the only child process of the run is the installer: neither
  \<open>mkdocs build\<close> nor \<open>mkdocs serve\<close> was started.
\<close>

theorem exit_choice:
  assumes "path_exists (disk w) (Path ''mkdocs.yml'')"
    and "\<forall>d \<in> set DOCS_DIRS. \<not> blocked (disk w) (Path d)"
    and "child w (length (calls w)) = Exited 0"
  shows "menu (''3'' # rest) v = (None, print ''Exiting...'' (show_menu v))
         \<and> calls (snd (menu (''3'' # rest) v)) = calls v
         \<and> exit_status (fst (main (''3'' # rest) w)) = 0
         \<and> calls (snd (main (''3'' # rest) w)) = calls w @ [pip_install w]
         \<and> (\<exists>w3. main (''3'' # rest) w = (None, print ''Exiting...'' (show_menu w3))
               \<and> calls w3 = calls w @ [pip_install w]
               \<and> prefix (stdout w @ [''Setting up AgentBridge documentation...'' @ newline]
                    @ map (\<lambda>d. ''Created directory: '' @ d @ newline) DOCS_DIRS
                    @ [''Successfully installed MkDocs and required plugins.'' @ newline])
                    (stdout w3))
         \<and> last (stdout (snd (main (''3'' # rest) w))) = ''Exiting...'' @ newline"
proof -
  from assms obtain w3 where "main (''3'' # rest) w = menu (''3'' # rest) w3"
    and "calls w3 = calls w @ [pip_install w]"
    and "prefix (stdout w @ [''Setting up AgentBridge documentation...'' @ newline]
                  @ created_lines DOCS_DIRS
                  @ [''Successfully installed MkDocs and required plugins.'' @ newline])
           (stdout w3)"
    by (rule main_setup)
  then show ?thesis by (auto simp: Let_def created_lines_def)
qed

text \<open>
  In a directory that holds only \<open>mkdocs.yml\<close>: exit status 0, \<open>pip\<close> is the only
  child, and \<open>Exiting...\<close> is the last line.
\<close>

theorem exit_choice_witness:
  "exit_status (fst (main [''3'', ''1''] configured_world)) = 0
   \<and> calls (snd (main [''3'', ''1''] configured_world)) =
       [[''/usr/bin/python3'', ''-m'', ''pip'', ''install'', ''mkdocs'', ''mkdocs-material'',
         ''pymdown-extensions'', ''mkdocs-git-revision-date-localized-plugin'']]
   \<and> last (stdout (snd (main [''3'', ''1''] configured_world))) = ''Exiting...'' @ newline"
proof -
  have "path_exists (disk configured_world) (Path ''mkdocs.yml'')"
    by (simp add: configured_world_def example_world_def configured_disk_config)
  moreover have "\<forall>d \<in> set DOCS_DIRS. \<not> blocked (disk configured_world) (Path d)"
    using configured_disk_not_blocked by (simp add: configured_world_def example_world_def)
  moreover have "child configured_world (length (calls configured_world)) = Exited 0"
    by (simp add: configured_world_def example_world_def)
  ultimately have "exit_status (fst (main [''3'', ''1''] configured_world)) = 0
      \<and> calls (snd (main [''3'', ''1''] configured_world))
          = calls configured_world @ [pip_install configured_world]
      \<and> last (stdout (snd (main [''3'', ''1''] configured_world))) = ''Exiting...'' @ newline"
    using exit_choice [of configured_world "[''1'']"] by blast
  then show ?thesis
    by (simp add: configured_world_def example_world_def pip_install_def)
qed

text \<open>
  Claim C8 as stated fails: the installer exits with 2 and the script exits with 1, so the
  return code of the child is not what the script ends with.
\<close>

theorem exit_status_not_propagated_counterexample:
  "child failing_world (length (calls failing_world)) = Exited 2
   \<and> exit_status (fst (main [] failing_world)) = 1"
proof -
  have out: "child failing_world (length (calls failing_world)) = Exited 2"
    by (simp add: failing_world_def example_world_def)
  have "path_exists (disk failing_world) (Path ''mkdocs.yml'')"
    by (simp add: failing_world_def example_world_def configured_disk_config)
  moreover have "\<forall>d \<in> set DOCS_DIRS. \<not> blocked (disk failing_world) (Path d)"
    using configured_disk_not_blocked by (simp add: failing_world_def example_world_def)
  ultimately have "exit_status (fst (main [] failing_world)) = 1"
    using out by (rule main_install_failed) simp
  with out show ?thesis by simp
qed

text \<open>
  Claim C8, amended. When the installer, \<open>mkdocs build\<close> or \<open>mkdocs serve\<close> fails (a
  return code other than 0, or a program that cannot be started), the script ends with
  exit status 1, whatever the return code of the child was: \<open>sys.exit(1)\<close> is a
  constant. For the installer this is stated for \<open>main\<close> after a successful
  scaffolding, for the other two for the round of the menu that starts them.
\<close>

theorem failure_exit_status:
  assumes "child w (length (calls w)) = out" and "failed out"
  shows "(path_exists (disk w) (Path ''mkdocs.yml'')
            \<and> (\<forall>d \<in> set DOCS_DIRS. \<not> blocked (disk w) (Path d))
          \<longrightarrow> exit_status (fst (main input w)) = 1)
         \<and> exit_status (fst (menu (''1'' # rest) w)) = 1
         \<and> exit_status (fst (menu (''2'' # rest) w)) = 1"
  using assms main_install_failed [of w out input] menu_build_failed [of w out rest]
    menu_serve_failed [of w out rest]
  by blast

text \<open>
  With children that exit with 2, all three ways end with exit status 1.
\<close>

theorem failure_exit_status_witness:
  "exit_status (fst (main [''1''] failing_world)) = 1
   \<and> exit_status (fst (menu [''1''] failing_world)) = 1
   \<and> exit_status (fst (menu [''2''] failing_world)) = 1"
proof -
  have out: "child failing_world (length (calls failing_world)) = Exited 2"
    by (simp add: failing_world_def example_world_def)
  have "path_exists (disk failing_world) (Path ''mkdocs.yml'')"
    by (simp add: failing_world_def example_world_def configured_disk_config)
  moreover have "\<forall>d \<in> set DOCS_DIRS. \<not> blocked (disk failing_world) (Path d)"
    using configured_disk_not_blocked by (simp add: failing_world_def example_world_def)
  moreover have "failed (Exited 2)" by simp
  ultimately show ?thesis
    using failure_exit_status [OF out, where input = "[''1'']" and rest = "[]"] by blast
qed

subsection \<open>The directories and the placeholder files\<close>

lemma scaffolded_disk_parents:
  "\<forall>f \<in> set expected_files. is_dir scaffolded_disk (path_parent (Path f))"
proof -
  have "list_all (\<lambda>p. is_dir scaffolded_disk (path_parent p)) (map Path expected_files)"
    unfolding Path_expected_files by (simp add: scaffolded_disk_def path_parent_def)
  then show ?thesis by (simp add: list_all_iff)
qed

lemma api_reference_title:
  "placeholder_title (Path ''docs/core/api-reference.md'') = ''Api Reference''"
  "placeholder_parent (Path ''docs/core/api-reference.md'') = ''Core''"
  by code_simp+

text \<open>
  The titles and section labels of the expected files, computed.
\<close>

lemma placeholder_titles:
  "map (\<lambda>f. (placeholder_title (Path f), placeholder_parent (Path f))) expected_files =
    [(''Index'', ''Docs''),
     (''Installation'', ''Getting Started''),
     (''Quick Start'', ''Getting Started''),
     (''Overview'', ''Core''),
     (''Api Reference'', ''Core''),
     (''Function Registry'', ''Core''),
     (''Type System'', ''Core''),
     (''Overview'', ''React''),
     (''Components'', ''React''),
     (''Hooks'', ''React''),
     (''Overview'', ''Angular''),
     (''Components'', ''Angular''),
     (''Services'', ''Angular''),
     (''Overview'', ''React Native''),
     (''Components'', ''React Native''),
     (''Overview'', ''Flutter''),
     (''Components'', ''Flutter''),
     (''Authentication'', ''Advanced''),
     (''Error Handling'', ''Advanced''),
     (''Custom Adapters'', ''Advanced''),
     (''Contributing'', ''Development''),
     (''Architecture'', ''Development'')]"
  by code_simp


lemma arch_diagram_not_expected: "arch_diagram_path \<notin> Path ` set expected_files"
proof -
  have "arch_diagram_path \<notin> set (map Path expected_files)"
    unfolding Path_expected_files arch_diagram_path_parts by simp
  then show ?thesis by simp
qed

lemma arch_diagram_note_text:
  "arch_diagram_note =
     ''Note: Please create an architecture diagram at docs/assets/agentbridge-architecture.png''"
  by (simp add: arch_diagram_note_def arch_diagram_path_parts path_str_def)

text \<open>
  Claim C10. After \<open>create_directories\<close> has run, the parent directory of every expected
  file exists: each parent is a member of \<open>DOCS_DIRS\<close> or an ancestor of one (a
  proper prefix of its parts). So \<open>create_placeholder_files\<close> raises nothing: no file
  is written into a missing directory.
\<close>

theorem placeholder_parents_exist:
  assumes "create_directories w = (None, w1)"
  shows "(\<forall>f \<in> set expected_files. is_dir (disk w1) (path_parent (Path f)))
         \<and> (\<forall>f \<in> set expected_files.
               path_parent (Path f) \<in> Path ` set DOCS_DIRS
               \<or> (\<exists>d \<in> set DOCS_DIRS. strict_prefix (path_parent (Path f)) (Path d)))
         \<and> (\<exists>w2. create_placeholder_files w1 = (None, w2))"
proof -
  have dirs: "\<forall>f \<in> set expected_files. is_dir (disk w1) (path_parent (Path f))"
    using assms by (rule parents_after_create_directories)
  moreover have "\<forall>f \<in> set expected_files.
      path_parent (Path f) \<in> Path ` set DOCS_DIRS
      \<or> (\<exists>d \<in> set DOCS_DIRS. strict_prefix (path_parent (Path f)) (Path d))"
    using expected_parents by (fastforce simp: strict_prefix_def)
  moreover have "\<exists>w2. create_placeholder_files w1 = (None, w2)"
    using create_placeholder_files_total [OF dirs] by blast
  ultimately show ?thesis by blast
qed

text \<open>
  In a directory that holds only \<open>mkdocs.yml\<close>, the scaffolding goes through, \<open>docs/web/react\<close>
  is there for \<open>hooks.md\<close>, and the placeholders are written without an error.
\<close>

theorem placeholder_parents_exist_witness:
  "\<exists>w1 w2. create_directories configured_world = (None, w1)
     \<and> is_dir (disk w1) (path_parent (Path ''docs/web/react/hooks.md''))
     \<and> create_placeholder_files w1 = (None, w2)"
proof -
  have "\<forall>d \<in> set DOCS_DIRS. \<not> blocked (disk configured_world) (Path d)"
    using configured_disk_not_blocked by (simp add: configured_world_def example_world_def)
  then obtain w1 where run: "create_directories configured_world = (None, w1)"
    by (rule create_directories_succeeds)
  have "''docs/web/react/hooks.md'' \<in> set expected_files"
    by (simp add: expected_files_def)
  with placeholder_parents_exist [OF run] run show ?thesis by blast
qed

text \<open>
  Claim C1. After \<open>create_directories\<close> and \<open>create_placeholder_files\<close> have both run
  (the second cannot fail after the first), every path of \<open>DOCS_DIRS\<close> is a
  directory, every path of the expected files exists, and an expected file that was a
  regular file before the run still has the content it had, byte for byte.
\<close>

theorem scaffold_then_placeholders:
  assumes "create_directories w = (None, w1)"
  shows "\<exists>w2. create_placeholder_files w1 = (None, w2)
           \<and> (\<forall>d \<in> set DOCS_DIRS. is_dir (disk w2) (Path d))
           \<and> (\<forall>f \<in> set expected_files. path_exists (disk w2) (Path f))
           \<and> (\<forall>f \<in> set expected_files. \<forall>c.
                 stat (disk w) (Path f) = Inr (File c) \<longrightarrow> stat (disk w2) (Path f) = Inr (File c))"
proof -
  have "\<forall>f \<in> set expected_files. is_dir (disk w1) (path_parent (Path f))"
    using assms by (rule parents_after_create_directories)
  from create_placeholder_files_total [OF this]
  obtain w2 where run: "create_placeholder_files w1 = (None, w2)"
    and dirs: "\<forall>q. is_dir (disk w2) q = is_dir (disk w1) q"
    and ex: "\<forall>q. path_exists (disk w2) q = (path_exists (disk w1) q \<or> q \<in> Path ` set expected_files)"
    and old: "\<forall>q c. stat (disk w1) q = Inr (File c) \<longrightarrow> stat (disk w2) q = Inr (File c)"
    by blast
  have "\<forall>d \<in> set DOCS_DIRS. is_dir (disk w2) (Path d)"
    using assms dirs by (simp add: create_directories_def create_directories_in_is_dir)
  moreover have "\<forall>f \<in> set expected_files. path_exists (disk w2) (Path f)"
    using ex by simp
  moreover have "\<forall>f \<in> set expected_files. \<forall>c.
      stat (disk w) (Path f) = Inr (File c) \<longrightarrow> stat (disk w2) (Path f) = Inr (File c)"
    using assms old by (simp add: create_directories_def create_directories_in_file)
  ultimately show ?thesis using run by blast
qed

text \<open>
  Where the user has already written \<open>docs/index.md\<close>, the run creates the directories and
  the other pages and leaves \<open># Home\<close> as it is.
\<close>

theorem scaffold_then_placeholders_witness:
  "\<exists>w1 w2. create_directories (example_world edited_disk (\<lambda>k. Exited 0)) = (None, w1)
     \<and> create_placeholder_files w1 = (None, w2)
     \<and> is_dir (disk w2) (Path ''docs/web/react'')
     \<and> path_exists (disk w2) (Path ''docs/core/overview.md'')
     \<and> stat (disk w2) (Path ''docs/index.md'') = Inr (File ''# Home'')"
proof -
  let ?w = "example_world edited_disk (\<lambda>k. Exited 0)"
  have "\<forall>d \<in> set DOCS_DIRS. \<not> blocked (disk ?w) (Path d)"
    using edited_disk_not_blocked by (simp add: example_world_def)
  then obtain w1 where run: "create_directories ?w = (None, w1)"
    by (rule create_directories_succeeds)
  have "''docs/web/react'' \<in> set DOCS_DIRS"
    by (simp add: DOCS_DIRS_def)
  moreover have "''docs/core/overview.md'' \<in> set expected_files"
    and "''docs/index.md'' \<in> set expected_files"
    by (simp_all add: expected_files_def)
  moreover have "stat (disk ?w) (Path ''docs/index.md'') = Inr (File ''# Home'')"
    by (simp add: example_world_def edited_disk_def Path_def str_split_def)
  ultimately show ?thesis
    using scaffold_then_placeholders [OF run] run by blast
qed


text \<open>
  Claim C2. For every expected file that does not exist, \<open>create_placeholder_files\<close> writes
  the document of the template: the heading is the stem of the file with hyphens replaced
  by spaces, in title case; the line below names that title and the section label, which
  is the name of the parent directory under the same transformation; then comes the
  \<open>Coming Soon\<close> heading. The parents of the expected files are taken to be
  directories, which is what \<open>create_directories\<close> leaves and what a write needs.
\<close>

theorem placeholder_document:
  assumes "\<forall>f \<in> set expected_files. is_dir (disk w) (path_parent (Path f))"
  shows "\<exists>w'. create_placeholder_files w = (None, w')
           \<and> (\<forall>f \<in> set expected_files. \<not> path_exists (disk w) (Path f) \<longrightarrow>
                 (let title = str_title (str_replace CHR ''-'' CHR '' '' (path_stem (Path f)));
                      parent = str_title (str_replace CHR ''-'' CHR '' ''
                                 (path_name (path_parent (Path f))))
                  in stat (disk w') (Path f) =
                       Inr (File (''# '' @ title @ newline
                         @ newline
                         @ ''This page is under construction. It will contain documentation about ''
                         @ title @ '' in the '' @ parent @ '' section.'' @ newline
                         @ newline
                         @ ''## Coming Soon'' @ newline
                         @ newline
                         @ ''Check back soon for detailed documentation on this topic.''
                         @ newline))))"
proof -
  from create_placeholder_files_total [OF assms]
  obtain w' where "create_placeholder_files w = (None, w')"
    and "\<forall>f \<in> set expected_files. \<not> path_exists (disk w) (Path f) \<longrightarrow>
           stat (disk w') (Path f) = Inr (File (placeholder_text f))"
    by blast
  then show ?thesis
    by (auto simp: placeholder_text_def placeholder_content_def placeholder_title_def
        placeholder_parent_def Let_def)
qed

text \<open>
  On the scaffolded tree, \<open>docs/core/api-reference.md\<close> gets the title \<open>Api Reference\<close> and
  the section \<open>Core\<close>.
\<close>

theorem placeholder_document_witness:
  "\<exists>w'. create_placeholder_files scaffolded_world = (None, w')
     \<and> stat (disk w') (Path ''docs/core/api-reference.md'') =
         Inr (File (''# Api Reference'' @ newline
           @ newline
           @ ''This page is under construction. It will contain documentation about ''
           @ ''Api Reference'' @ '' in the '' @ ''Core'' @ '' section.'' @ newline
           @ newline
           @ ''## Coming Soon'' @ newline
           @ newline
           @ ''Check back soon for detailed documentation on this topic.''
           @ newline))"
proof -
  have "\<forall>f \<in> set expected_files. is_dir (disk scaffolded_world) (path_parent (Path f))"
    using scaffolded_disk_parents by (simp add: scaffolded_world_def example_world_def)
  from placeholder_document [OF this]
  obtain w' where run: "create_placeholder_files scaffolded_world = (None, w')"
    and doc: "\<forall>f \<in> set expected_files. \<not> path_exists (disk scaffolded_world) (Path f) \<longrightarrow>
                 (let title = str_title (str_replace CHR ''-'' CHR '' '' (path_stem (Path f)));
                      parent = str_title (str_replace CHR ''-'' CHR '' ''
                                 (path_name (path_parent (Path f))))
                  in stat (disk w') (Path f) =
                       Inr (File (''# '' @ title @ newline
                         @ newline
                         @ ''This page is under construction. It will contain documentation about ''
                         @ title @ '' in the '' @ parent @ '' section.'' @ newline
                         @ newline
                         @ ''## Coming Soon'' @ newline
                         @ newline
                         @ ''Check back soon for detailed documentation on this topic.''
                         @ newline)))"
    by blast
  have "''docs/core/api-reference.md'' \<in> set expected_files"
    by (simp add: expected_files_def)
  moreover have "\<not> path_exists (disk scaffolded_world) (Path ''docs/core/api-reference.md'')"
    by (simp add: scaffolded_world_def example_world_def scaffolded_disk_def Path_def
        str_split_def)
  ultimately have "stat (disk w') (Path ''docs/core/api-reference.md'') =
      Inr (File (placeholder_text ''docs/core/api-reference.md''))"
    using doc
    by (simp add: placeholder_text_def placeholder_content_def placeholder_title_def
        placeholder_parent_def Let_def)
  with run show ?thesis
    by (simp add: placeholder_text_def placeholder_content_def api_reference_title)
qed

text \<open>
  Claim C9. When the architecture diagram is missing, \<open>create_placeholder_files\<close> prints
  the note first and goes on; afterwards the image is still missing, whereas every
  expected file exists.
\<close>

theorem architecture_diagram_left_missing:
  assumes "\<forall>f \<in> set expected_files. is_dir (disk w) (path_parent (Path f))"
    and "\<not> path_exists (disk w) arch_diagram_path"
  shows "\<exists>w'. create_placeholder_files w = (None, w')
           \<and> prefix (stdout w @
                [''Note: Please create an architecture diagram at docs/assets/agentbridge-architecture.png''
                 @ newline]) (stdout w')
           \<and> \<not> path_exists (disk w') arch_diagram_path
           \<and> (\<forall>f \<in> set expected_files. path_exists (disk w') (Path f))"
proof -
  from create_placeholder_files_total [OF assms(1)]
  obtain w' where run: "create_placeholder_files w = (None, w')"
    and ex: "\<forall>q. path_exists (disk w') q = (path_exists (disk w) q \<or> q \<in> Path ` set expected_files)"
    by blast
  from run assms(2) have "write_placeholders expected_files (print arch_diagram_note w) = (None, w')"
    by (simp add: create_placeholder_files_def)
  then have "prefix (stdout (print arch_diagram_note w)) (stdout w')"
    by (rule write_placeholders_stdout)
  then have "prefix (stdout w @
      [''Note: Please create an architecture diagram at docs/assets/agentbridge-architecture.png''
       @ newline]) (stdout w')"
    by (simp add: arch_diagram_note_text)
  moreover have "\<not> path_exists (disk w') arch_diagram_path"
    using ex assms(2) arch_diagram_not_expected by simp
  moreover have "\<forall>f \<in> set expected_files. path_exists (disk w') (Path f)"
    using ex by simp
  ultimately show ?thesis using run by blast
qed

text \<open>
  On the scaffolded tree the note is the first line printed, the image is not created and
  \<open>docs/index.md\<close> is.
\<close>

theorem architecture_diagram_left_missing_witness:
  "\<exists>w'. create_placeholder_files scaffolded_world = (None, w')
     \<and> hd (stdout w') =
         ''Note: Please create an architecture diagram at docs/assets/agentbridge-architecture.png''
         @ newline
     \<and> \<not> path_exists (disk w') (Path ''docs/assets/agentbridge-architecture.png'')
     \<and> path_exists (disk w') (Path ''docs/index.md'')"
proof -
  have "\<forall>f \<in> set expected_files. is_dir (disk scaffolded_world) (path_parent (Path f))"
    using scaffolded_disk_parents by (simp add: scaffolded_world_def example_world_def)
  moreover have "\<not> path_exists (disk scaffolded_world) arch_diagram_path"
    by (simp add: scaffolded_world_def example_world_def scaffolded_disk_def
        arch_diagram_path_parts)
  moreover have "''docs/index.md'' \<in> set expected_files"
    by (simp add: expected_files_def)
  moreover have "stdout scaffolded_world = []"
    by (simp add: scaffolded_world_def example_world_def)
  ultimately show ?thesis
    using architecture_diagram_left_missing [of scaffolded_world]
    by (auto simp: prefix_def arch_diagram_path_def)
qed



text \<open>
  The condition of the amended claim C7 is needed: a regular file in the way makes the run fail.
\<close>

lemma create_directories_blocked:
  assumes "d \<in> set DOCS_DIRS" and "blocked (disk w) (Path d)"
  shows "\<exists>e w'. create_directories w = (Some e, w')"
proof (cases "create_directories w")
  case (Pair r w')
  show ?thesis
  proof (cases r)
    case None
    with Pair assms show ?thesis
      using create_directories_in_not_blocked [of DOCS_DIRS w w' d]
      by (simp add: create_directories_def)
  next
    case (Some e)
    with Pair show ?thesis by simp
  qed
qed




end
